theory Spec2Isabelle
  imports Main "HOL-Library.Sublist"
begin

section \<open>JavaScript values\<close>

text \<open>
  The values that reach \<^verbatim>\<open>IntegrationsFile.load(data: any)\<close>: \<^verbatim>\<open>undefined\<close>, \<^verbatim>\<open>null\<close>,
  booleans, strings, arrays and plain objects. A string is a list of characters; text outside
  ASCII is written as its UTF-8 bytes. A plain object is the list of its own properties in
  insertion order.
\<close>

datatype jsval =
    JUndefined
  | JNull
  | JBool bool
  | JStr string
  | JArr "jsval list"
  | JObj "(string \<times> jsval) list"

text \<open>The \<^verbatim>\<open>typeof\<close> operator: \<^verbatim>\<open>null\<close> and arrays are of type \<^verbatim>\<open>object\<close>.\<close>

fun typeof :: "jsval \<Rightarrow> string" where
  "typeof JUndefined = ''undefined''"
| "typeof JNull = ''object''"
| "typeof (JBool b) = ''boolean''"
| "typeof (JStr s) = ''string''"
| "typeof (JArr xs) = ''object''"
| "typeof (JObj kvs) = ''object''"

text \<open>\<^verbatim>\<open>Array.isArray\<close>, and the elements of an array (\<^verbatim>\<open>[...value]\<close>).\<close>

fun isArray :: "jsval \<Rightarrow> bool" where
  "isArray (JArr xs) = True"
| "isArray v = False"

fun elements :: "jsval \<Rightarrow> jsval list" where
  "elements (JArr xs) = xs"
| "elements v = []"

text \<open>
  Reading a named property \<^verbatim>\<open>value.key\<close> of a value of type \<^verbatim>\<open>object\<close> that is not
  \<^verbatim>\<open>null\<close>: an own property of a plain object, \<^verbatim>\<open>undefined\<close> when it has none of that
  name, and \<^verbatim>\<open>undefined\<close> for a name that is not an index of an array.
\<close>

fun getProp :: "jsval \<Rightarrow> string \<Rightarrow> jsval" where
  "getProp (JObj kvs) k = (case map_of kvs k of None \<Rightarrow> JUndefined | Some v \<Rightarrow> v)"
| "getProp v k = JUndefined"

text \<open>
  Assigning a property \<^verbatim>\<open>data[key] = value\<close> of a plain object: an existing property keeps
  its place, a new one goes last.
\<close>

fun setProp :: "(string \<times> jsval) list \<Rightarrow> string \<Rightarrow> jsval \<Rightarrow> (string \<times> jsval) list" where
  "setProp [] k v = [(k, v)]"
| "setProp ((k', v') # kvs) k v = (if k' = k then (k, v) # kvs else (k', v') # setProp kvs k v)"

text \<open>
  String conversion, as a template literal \<^verbatim>\<open>${value}\<close> does it, and \<^verbatim>\<open>Array.prototype.join\<close>,
  which writes \<^verbatim>\<open>undefined\<close> and \<^verbatim>\<open>null\<close> elements as the empty string.
\<close>

fun ToString :: "jsval \<Rightarrow> string" and joinVals :: "string \<Rightarrow> jsval list \<Rightarrow> string" where
  "ToString JUndefined = ''undefined''"
| "ToString JNull = ''null''"
| "ToString (JBool b) = (if b then ''true'' else ''false'')"
| "ToString (JStr s) = s"
| "ToString (JArr xs) = joinVals '','' xs"
| "ToString (JObj kvs) = ''[object Object]''"
| "joinVals sep [] = []"
| "joinVals sep (x # xs) =
     (if x = JUndefined \<or> x = JNull then [] else ToString x)
     @ (if xs = [] then [] else sep @ joinVals sep xs)"

text \<open>\<^verbatim>\<open>Array.prototype.join\<close> on an array of strings.\<close>

fun joinStrings :: "string \<Rightarrow> string list \<Rightarrow> string" where
  "joinStrings sep [] = []"
| "joinStrings sep (x # xs) = x @ (if xs = [] then [] else sep @ joinStrings sep xs)"

text \<open>
  A \<^verbatim>\<open>Set\<close> is the list of its elements in insertion order, without repetition.
  \<^verbatim>\<open>new Set(iterable)\<close> adds the elements one by one. Two strings are the same element when
  they are equal; the model compares arrays and objects by value as well, where JavaScript
  compares them by identity.
\<close>

definition setAdd :: "'a list \<Rightarrow> 'a \<Rightarrow> 'a list" where
  "setAdd s x = (if x \<in> set s then s else s @ [x])"

definition newSet :: "'a list \<Rightarrow> 'a list" where
  "newSet xs = foldl setAdd [] xs"

section \<open>Errors\<close>

text \<open>
  \<^verbatim>\<open>Error\<close> and clipanion's \<^verbatim>\<open>UsageError\<close> carry their message; \<open>FsError\<close> is a failure
  of the filesystem provider and carries its code.
\<close>

datatype error = Error string | UsageError string | FsError string

fun appendMessage :: "error \<Rightarrow> string \<Rightarrow> error" where
  "appendMessage (Error m) s = Error (m @ s)"
| "appendMessage (UsageError m) s = UsageError (m @ s)"
| "appendMessage (FsError m) s = FsError (m @ s)"

section \<open>Paths and the filesystem provider\<close>

text \<open>
  A \<^verbatim>\<open>PortablePath\<close> is the list of its segments, the pieces between the \<^verbatim>\<open>/\<close>: the
  absolute path \<^verbatim>\<open>/a/b\<close> is \<open>['''', ''a'', ''b'']\<close>, the relative path \<^verbatim>\<open>a/b\<close> is
  \<open>[''a'', ''b'']\<close>.
\<close>

type_synonym PortablePath = "string list"

definition pathString :: "PortablePath \<Rightarrow> string" where
  "pathString p = joinStrings ''/'' p"

definition OLD_SDK_FOLDER :: PortablePath where
  "OLD_SDK_FOLDER = [''.vscode'', ''pnpify'']"

definition SDK_FOLDER :: PortablePath where
  "SDK_FOLDER = [''.yarn'', ''sdks'']"

definition INTEGRATIONS_FILE :: PortablePath where
  "INTEGRATIONS_FILE = [''integrations.yml'']"

text \<open>
  Modelled from the spec: the path utilities of the Filesystem Provider (\<^verbatim>\<open>ppath.join\<close>,
  \<^verbatim>\<open>ppath.dirname\<close>, \<^verbatim>\<open>ppath.relative\<close> of \<^verbatim>\<open>@yarnpkg/fslib\<close>, which is not among the
  sources), on normalised paths: joining appends the segments of a relative path that has no
  \<^verbatim>\<open>.\<close> or \<^verbatim>\<open>..\<close> segment, the directory name drops the last segment, and the relative
  path from one absolute path to another climbs out of what they do not share.
\<close>

definition join :: "PortablePath \<Rightarrow> PortablePath \<Rightarrow> PortablePath" where
  "join a b = a @ b"

definition dirname :: "PortablePath \<Rightarrow> PortablePath" where
  "dirname p = butlast p"

fun relative :: "PortablePath \<Rightarrow> PortablePath \<Rightarrow> PortablePath" where
  "relative (x # xs) (y # ys) =
     (if x = y then relative xs ys else replicate (length (x # xs)) ''..'' @ (y # ys))"
| "relative xs ys = replicate (length xs) ''..'' @ ys"

text \<open>
  Modelled from the spec: the file I/O of the Filesystem Provider (\<^verbatim>\<open>xfs\<close> of
  \<^verbatim>\<open>@yarnpkg/fslib\<close>): read, write, chmod, mkdir recursive, remove recursive, existence
  checks. The tree is a map from paths to nodes. A file has its content and whether it is
  executable. A symbolic link is a leaf, a node of its own that is never followed. The roots
  \<open>[]\<close> and \<open>['''']\<close> always are directories.
\<close>

datatype node = File string bool | Directory | SymbolicLink

type_synonym fs = "PortablePath \<rightharpoonup> node"

definition isRoot :: "PortablePath \<Rightarrow> bool" where
  "isRoot p = (p = [] \<or> p = [''''])"

definition isDirectory :: "fs \<Rightarrow> PortablePath \<Rightarrow> bool" where
  "isDirectory t p = (isRoot p \<or> t p = Some Directory)"

definition existsSync :: "fs \<Rightarrow> PortablePath \<Rightarrow> bool" where
  "existsSync t p = (isRoot p \<or> t p \<noteq> None)"

text \<open>\<^verbatim>\<open>xfs.lstatSync(p).isSymbolicLink()\<close>; the path is one that exists.\<close>

definition isSymbolicLink :: "fs \<Rightarrow> PortablePath \<Rightarrow> bool" where
  "isSymbolicLink t p = (t p = Some SymbolicLink)"

text \<open>\<^verbatim>\<open>xfs.removePromise(p)\<close> removes the node and everything below it.\<close>

definition removePromise :: "PortablePath \<Rightarrow> fs \<Rightarrow> fs" where
  "removePromise p t = (\<lambda>q. if prefix p q then None else t q)"

text \<open>
  \<^verbatim>\<open>xfs.mkdirPromise(p, {recursive: true})\<close> creates the directory and its missing ancestors,
  and fails where a file or a link is in the way.
\<close>

fun mkdirAll :: "PortablePath list \<Rightarrow> fs \<Rightarrow> (error + unit) \<times> fs" where
  "mkdirAll [] t = (Inr (), t)"
| "mkdirAll (q # qs) t =
     (if isRoot q then mkdirAll qs t
      else case t q of
        None \<Rightarrow> mkdirAll qs (t(q \<mapsto> Directory))
      | Some Directory \<Rightarrow> mkdirAll qs t
      | Some n \<Rightarrow> (Inl (FsError ''ENOTDIR''), t))"

definition mkdirPromise :: "PortablePath \<Rightarrow> fs \<Rightarrow> (error + unit) \<times> fs" where
  "mkdirPromise p t = mkdirAll (prefixes p) t"

definition readFilePromise :: "PortablePath \<Rightarrow> fs \<Rightarrow> (error + string) \<times> fs" where
  "readFilePromise p t =
     (case t p of
        Some (File content x) \<Rightarrow> (Inr content, t)
      | Some n \<Rightarrow> (Inl (FsError ''EISDIR''), t)
      | None \<Rightarrow> (Inl (FsError ''ENOENT''), t))"

text \<open>Writing keeps the mode of a file that exists; a new file is not executable.\<close>

definition writeFilePromise :: "PortablePath \<Rightarrow> string \<Rightarrow> fs \<Rightarrow> (error + unit) \<times> fs" where
  "writeFilePromise p content t =
     (if \<not> isDirectory t (dirname p) then (Inl (FsError ''ENOENT''), t)
      else case t p of
        None \<Rightarrow> (Inr (), t(p \<mapsto> File content False))
      | Some (File old x) \<Rightarrow> (Inr (), t(p \<mapsto> File content x))
      | Some n \<Rightarrow> (Inl (FsError ''EISDIR''), t))"

text \<open>
  \<^verbatim>\<open>xfs.changeFilePromise(p, content, {automaticNewlines: true})\<close> writes the content with
  normalised line endings; contents are modelled with the line ending \<^verbatim>\<open>\n\<close> throughout, on
  which the normalisation is the identity.
\<close>

definition changeFilePromise :: "PortablePath \<Rightarrow> string \<Rightarrow> fs \<Rightarrow> (error + unit) \<times> fs" where
  "changeFilePromise p content t = writeFilePromise p content t"

text \<open>\<^verbatim>\<open>xfs.chmodPromise(p, 0o755)\<close> makes a file executable.\<close>

definition chmodPromise :: "PortablePath \<Rightarrow> fs \<Rightarrow> (error + unit) \<times> fs" where
  "chmodPromise p t =
     (case t p of
        None \<Rightarrow> (Inl (FsError ''ENOENT''), t)
      | Some (File content x) \<Rightarrow> (Inr (), t(p \<mapsto> File content True))
      | Some n \<Rightarrow> (Inr (), t))"

section \<open>The libraries the generator calls\<close>

text \<open>
  The functions of other packages that \<^verbatim>\<open>generateSdk.ts\<close> calls and whose code is not among
  the sources are parameters of the model: \<^verbatim>\<open>parseSyml\<close> and \<^verbatim>\<open>stringifySyml\<close> of
  \<^verbatim>\<open>@yarnpkg/parsers\<close>, \<^verbatim>\<open>npath.fromPortablePath\<close> and \<^verbatim>\<open>npath.toPortablePath\<close> of
  \<^verbatim>\<open>@yarnpkg/fslib\<close>, \<^verbatim>\<open>startCase\<close> and \<^verbatim>\<open>capitalize\<close> of lodash, \<^verbatim>\<open>chalk.green\<close> and
  \<^verbatim>\<open>chalk.yellow\<close>.
\<close>

record Libs =
  parseSyml :: "string \<Rightarrow> error + jsval"
  stringifySyml :: "jsval \<Rightarrow> string"
  fromPortablePath :: "PortablePath \<Rightarrow> string"
  toPortablePath :: "string \<Rightarrow> PortablePath"
  startCase :: "string \<Rightarrow> string"
  capitalize :: "string \<Rightarrow> string"
  green :: "string \<Rightarrow> string"
  yellow :: "string \<Rightarrow> string"

section \<open>Supported integrations\<close>

text \<open>The keys of the map \<^verbatim>\<open>SUPPORTED_INTEGRATIONS\<close>, in its order.\<close>

definition SUPPORTED_INTEGRATION_KEYS :: "string list" where
  "SUPPORTED_INTEGRATION_KEYS = [''vim'', ''vscode'']"

text \<open>\<^verbatim>\<open>SUPPORTED_INTEGRATIONS.has(integration)\<close>: only a string can be a key of the map.\<close>

fun hasSupportedIntegration :: "jsval \<Rightarrow> bool" where
  "hasSupportedIntegration (JStr s) = (s \<in> set SUPPORTED_INTEGRATION_KEYS)"
| "hasSupportedIntegration v = False"

definition UNSUPPORTED_HEAD :: string where
  "UNSUPPORTED_HEAD = ''No supported integrations with the following names could be found: ''"

definition UNSUPPORTED_GUIDANCE :: string where
  "UNSUPPORTED_GUIDANCE = ''. Run `yarn pnpify --sdk -h` to see the list of supported integrations.''"

definition validateIntegrations :: "jsval list \<Rightarrow> error + unit" where
  "validateIntegrations integrations =
     (let unsupportedIntegrations = filter (\<lambda>integration. \<not> hasSupportedIntegration integration) integrations
      in if length unsupportedIntegrations > 0
         then Inl (UsageError (UNSUPPORTED_HEAD @ joinVals '', '' unsupportedIntegrations @ UNSUPPORTED_GUIDANCE))
         else Inr ())"

section \<open>IntegrationsFile\<close>

record IntegrationsFile =
  integrations :: "jsval list"
  raw :: jsval

definition newIntegrationsFile :: IntegrationsFile where
  "newIntegrationsFile = \<lparr>integrations = [], raw = JObj []\<rparr>"

text \<open>
  \<^verbatim>\<open>load\<close> assigns the fields of the instance before it validates, so the instance it leaves
  behind is returned beside the outcome.
\<close>

definition load :: "jsval \<Rightarrow> IntegrationsFile \<Rightarrow> (error + unit) \<times> IntegrationsFile" where
  "load data this =
     (if typeof data \<noteq> ''object'' \<or> data = JNull
      then (Inl (Error (''Utterly invalid integrations file data ('' @ ToString data @ '')'')), this)
      else
        let this1 = this\<lparr>raw := data\<rparr>
        in if isArray (getProp data ''integrations'')
           then
             let this2 = this1\<lparr>integrations := newSet (elements (getProp data ''integrations''))\<rparr>
             in (validateIntegrations (integrations this2), this2)
           else (Inr (), this1))"

definition exportTo :: "IntegrationsFile \<Rightarrow> (string \<times> jsval) list \<Rightarrow> (string \<times> jsval) list" where
  "exportTo this data =
     (if length (integrations this) > 0
      then setProp data ''integrations'' (JArr (integrations this))
      else data)"

definition BANNER :: string where
  "BANNER = ''# This file is automatically generated by PnPify.\<newline># Manual changes will be lost!\<newline>\<newline>''"

text \<open>The document that \<^verbatim>\<open>persist\<close> serialises: \<^verbatim>\<open>const data = {}; this.exportTo(data)\<close>.\<close>

definition persistData :: "IntegrationsFile \<Rightarrow> jsval" where
  "persistData this = JObj (exportTo this [])"

definition persist :: "Libs \<Rightarrow> PortablePath \<Rightarrow> IntegrationsFile \<Rightarrow> fs \<Rightarrow> (error + unit) \<times> fs" where
  "persist lib dir this t =
     (let data = persistData this;
          path = join dir INTEGRATIONS_FILE;
          content = BANNER @ stringifySyml lib data
      in case mkdirPromise (dirname path) t of
           (Inl e, t1) \<Rightarrow> (Inl e, t1)
         | (Inr u, t1) \<Rightarrow> changeFilePromise path content t1)"

definition loadFile :: "Libs \<Rightarrow> PortablePath \<Rightarrow> IntegrationsFile \<Rightarrow> fs
    \<Rightarrow> (error + unit) \<times> IntegrationsFile \<times> fs" where
  "loadFile lib path this t =
     (case readFilePromise path t of
        (Inl e, t1) \<Rightarrow> (Inl e, this, t1)
      | (Inr content, t1) \<Rightarrow>
          (case parseSyml lib (if content = [] then ''{}'' else content) of
             Inl e \<Rightarrow> (Inl (appendMessage e ('' (when parsing '' @ pathString path @ '')'')), this, t1)
           | Inr data \<Rightarrow> (case load data this of (r, this1) \<Rightarrow> (r, this1, t1))))"

definition findIntegrationsFile :: "Libs \<Rightarrow> PortablePath \<Rightarrow> fs \<Rightarrow> (error + IntegrationsFile option) \<times> fs" where
  "findIntegrationsFile lib projectRoot t =
     (let targetFolder = join projectRoot SDK_FOLDER;
          integrationPath = join targetFolder INTEGRATIONS_FILE
      in if \<not> existsSync t integrationPath then (Inr None, t)
         else case loadFile lib integrationPath newIntegrationsFile t of
                (Inl e, this1, t1) \<Rightarrow> (Inl e, t1)
              | (Inr u, this1, t1) \<Rightarrow> (Inr (Some this1), t1))"


section \<open>The template of a generated script\<close>

text \<open>
  \<^verbatim>\<open>JSON.stringify\<close> of a string: the text between double quotes, with the quote, the
  backslash and the control characters escaped.
\<close>

definition hexDigit :: "nat \<Rightarrow> char" where
  "hexDigit n = ''0123456789abcdef'' ! (n mod 16)"

definition quoteJSONChar :: "char \<Rightarrow> string" where
  "quoteJSONChar c =
     (if c = CHR 0x22 then [CHR 0x5C, CHR 0x22]
      else if c = CHR 0x5C then [CHR 0x5C, CHR 0x5C]
      else if c = CHR 0x08 then [CHR 0x5C, CHR ''b'']
      else if c = CHR 0x0C then [CHR 0x5C, CHR ''f'']
      else if c = CHR 0x0A then [CHR 0x5C, CHR ''n'']
      else if c = CHR 0x0D then [CHR 0x5C, CHR ''r'']
      else if c = CHR 0x09 then [CHR 0x5C, CHR ''t'']
      else if (of_char c :: nat) < 32
        then [CHR 0x5C, CHR ''u'', CHR ''0'', CHR ''0'', hexDigit (of_char c div 16), hexDigit (of_char c)]
      else [c])"

definition JSON_stringify :: "string \<Rightarrow> string" where
  "JSON_stringify s = [CHR 0x22] @ concat (map quoteJSONChar s) @ [CHR 0x22]"

text \<open>
  \<^verbatim>\<open>String.prototype.trim\<close> and \<^verbatim>\<open>replace(/^ {4}/gm, ``)\<close>, on the white space and the line
  terminators of ASCII: the replacement drops four spaces at the start of every line that
  begins with four spaces.
\<close>

definition isWhiteSpace :: "char \<Rightarrow> bool" where
  "isWhiteSpace c = (c \<in> set [CHR 0x09, CHR 0x0A, CHR 0x0B, CHR 0x0C, CHR 0x0D, CHR 0x20])"

definition isLineTerminator :: "char \<Rightarrow> bool" where
  "isLineTerminator c = (c = CHR 0x0A \<or> c = CHR 0x0D)"

definition trim :: "string \<Rightarrow> string" where
  "trim s = rev (dropWhile isWhiteSpace (rev (dropWhile isWhiteSpace s)))"

function dedent :: "bool \<Rightarrow> string \<Rightarrow> string" where
  "dedent lineStart [] = []"
| "dedent lineStart (c # cs) =
     (if lineStart \<and> take 4 (c # cs) = ''    ''
      then dedent False (drop 3 cs)
      else c # dedent (isLineTerminator c) cs)"
  by pat_completeness auto
termination
  by (relation "measure (\<lambda>(lineStart, s). length s)") auto

record TemplateOptions =
  setupEnv :: "bool option"
  usePnpify :: "bool option"
  wrapModule :: "string option"

text \<open>The default \<^verbatim>\<open>options = {}\<close>, and the defaults of the destructuring.\<close>

definition noOptions :: TemplateOptions where
  "noOptions = \<lparr>setupEnv = None, usePnpify = None, wrapModule = None\<rparr>"

definition flag :: "bool option \<Rightarrow> bool" where
  "flag b = (case b of None \<Rightarrow> False | Some v \<Rightarrow> v)"

text \<open>The condition \<^verbatim>\<open>wrapModule ? ... : ...\<close>: a string is truthy unless it is empty.\<close>

definition truthy :: "string option \<Rightarrow> bool" where
  "truthy w = (case w of None \<Rightarrow> False | Some s \<Rightarrow> s \<noteq> [])"

text \<open>The three optional blocks of the template, each the array that the source spreads.\<close>

definition moduleWrapperBlock :: "string option \<Rightarrow> string list" where
  "moduleWrapperBlock w =
     [''const moduleWrapper = '' @ dedent True (trim (case w of None \<Rightarrow> [] | Some s \<Rightarrow> s)) @ ''\<newline>'',
      ''\<newline>'']"

definition setupEnvBlock :: "string list" where
  "setupEnvBlock =
     [''\<newline>'',
      ''  if (typeof global[`__yarnpkg_sdk_has_setup_env__`] === `undefined`) {\<newline>'',
      ''    Object.defineProperty(global, `__yarnpkg_sdk_has_setup_env__`, {configurable: true, value: true});\<newline>'',
      ''\<newline>'',
      ''    process.env.NODE_OPTIONS = process.env.NODE_OPTIONS || ``;\<newline>'',
      ''    process.env.NODE_OPTIONS += ` -r ${absPnpApiPath}`;\<newline>'',
      ''  }\<newline>'']"

definition usePnpifyBlock :: "string list" where
  "usePnpifyBlock =
     [''\<newline>'',
      ''  if (typeof global[`__yarnpkg_sdk_is_using_pnpify__`] === `undefined`) {\<newline>'',
      ''    Object.defineProperty(global, `__yarnpkg_sdk_is_using_pnpify__`, {configurable: true, value: true});\<newline>'',
      ''\<newline>'',
      ''    process.env.NODE_OPTIONS += ` -r ${pnpifyResolution}`;\<newline>'',
      ''\<newline>'',
      ''    // Apply PnPify to the current process\<newline>'',
      ''    absRequire(`@yarnpkg/pnpify`).patchFs();\<newline>'',
      ''  }\<newline>'']"

text \<open>The array of the template, before \<^verbatim>\<open>.join(``)\<close>.\<close>

definition templateParts :: "Libs \<Rightarrow> PortablePath \<Rightarrow> string \<Rightarrow> TemplateOptions \<Rightarrow> string list" where
  "templateParts lib relPnpApiPath module options =
     [''#!/usr/bin/env node\<newline>'',
      ''\<newline>'',
      ''const {existsSync} = require(`fs`);\<newline>'',
      ''const {createRequire, createRequireFromPath} = require(`module`);\<newline>'',
      ''const {resolve} = require(`path`);\<newline>'',
      ''\<newline>'',
      ''const relPnpApiPath = '' @ JSON_stringify (fromPortablePath lib relPnpApiPath) @ '';\<newline>'',
      ''\<newline>'',
      ''const absPnpApiPath = resolve(__dirname, relPnpApiPath);\<newline>'',
      ''const absRequire = (createRequire || createRequireFromPath)(absPnpApiPath);\<newline>'',
      ''\<newline>'']
     @ (if truthy (wrapModule options) then moduleWrapperBlock (wrapModule options) else [])
     @ [''if (existsSync(absPnpApiPath)) {\<newline>'',
        ''  if (!process.versions.pnp) {\<newline>'',
        ''    // Setup the environment to be able to require '' @ module @ ''\<newline>'',
        ''    require(absPnpApiPath).setup();\<newline>'',
        ''  }\<newline>'']
     @ (if flag (setupEnv options) then setupEnvBlock else [])
     @ (if flag (usePnpify options) then usePnpifyBlock else [])
     @ [''}\<newline>'',
        ''\<newline>'',
        ''// Defer to the real '' @ module @ '' your application uses\<newline>'',
        (if truthy (wrapModule options)
         then ''module.exports = moduleWrapper(absRequire(`'' @ module @ ''`));\<newline>''
         else ''module.exports = absRequire(`'' @ module @ ''`);\<newline>'')]"

definition TEMPLATE :: "Libs \<Rightarrow> PortablePath \<Rightarrow> string \<Rightarrow> TemplateOptions \<Rightarrow> string" where
  "TEMPLATE lib relPnpApiPath module options = concat (templateParts lib relPnpApiPath module options)"

section \<open>Wrapper\<close>

text \<open>
  What the generator reads of the \<^verbatim>\<open>PnpApi\<close>: the information of the top-level package
  (\<^verbatim>\<open>pnpApi.getPackageInformation(pnpApi.topLevel)\<close>) and the resolution of \<^verbatim>\<open>pnpapi\<close>
  (\<^verbatim>\<open>pnpApi.resolveRequest(`pnpapi`, null)\<close>), both native paths.
\<close>

record PackageInformation =
  packageLocation :: string
  packageDependencies :: "(string \<times> string) list"

record PnpApi =
  topLevelInformation :: PackageInformation
  resolvePnpapi :: string

record Wrapper =
  name :: PortablePath
  pnpApi :: PnpApi
  target :: PortablePath
  paths :: "PortablePath \<rightharpoonup> PortablePath"

definition newWrapper :: "PortablePath \<Rightarrow> PnpApi \<Rightarrow> PortablePath \<Rightarrow> Wrapper" where
  "newWrapper n api tgt = \<lparr>name = n, pnpApi = api, target = tgt, paths = Map.empty\<rparr>"

definition writeFile :: "Libs \<Rightarrow> PortablePath \<Rightarrow> TemplateOptions \<Rightarrow> Wrapper \<Rightarrow> fs
    \<Rightarrow> (error + PortablePath) \<times> Wrapper \<times> fs" where
  "writeFile lib relPackagePath options this t =
     (let projectRoot = toPortablePath lib (packageLocation (topLevelInformation (pnpApi this)));
          absWrapperPath = join (join (target this) (name this)) relPackagePath;
          relProjectPath = relative projectRoot absWrapperPath;
          absPnpApiPath = toPortablePath lib (resolvePnpapi (pnpApi this));
          relPnpApiPath = relative (dirname absWrapperPath) absPnpApiPath
      in case mkdirPromise (dirname absWrapperPath) t of
           (Inl e, t1) \<Rightarrow> (Inl e, this, t1)
         | (Inr u, t1) \<Rightarrow>
            (case writeFilePromise absWrapperPath
                    (TEMPLATE lib relPnpApiPath (pathString (join (name this) relPackagePath)) options) t1 of
               (Inl e, t2) \<Rightarrow> (Inl e, this, t2)
             | (Inr u, t2) \<Rightarrow>
                 (Inr absWrapperPath, this\<lparr>paths := (paths this)(relPackagePath \<mapsto> relProjectPath)\<rparr>, t2)))"

definition writeBinary :: "Libs \<Rightarrow> PortablePath \<Rightarrow> TemplateOptions \<Rightarrow> Wrapper \<Rightarrow> fs
    \<Rightarrow> (error + unit) \<times> Wrapper \<times> fs" where
  "writeBinary lib relPackagePath options this t =
     (case writeFile lib relPackagePath options this t of
        (Inl e, this1, t1) \<Rightarrow> (Inl e, this1, t1)
      | (Inr absPackagePath, this1, t1) \<Rightarrow>
          (case chmodPromise absPackagePath t1 of (r, t2) \<Rightarrow> (r, this1, t2)))"





section \<open>generateSdk\<close>

text \<open>
  The registries of \<^verbatim>\<open>./sdks/base\<close>, \<^verbatim>\<open>./sdks/cocvim\<close> and \<^verbatim>\<open>./sdks/vscode\<close> are not
  among the sources: they are parameters. A generator works on the filesystem; a base
  generator returns the wrapper it built, an integration generator may write through the
  wrapper it is given and returns it. The entry of an integration table is the default one
  (its key is \<^verbatim>\<open>null\<close>) or the one of a package, each with a generator or \<^verbatim>\<open>null\<close>.
\<close>

type_synonym GenerateBaseWrapper = "PnpApi \<Rightarrow> PortablePath \<Rightarrow> fs \<Rightarrow> (error + Wrapper) \<times> fs"

type_synonym GenerateIntegrationWrapper =
  "PnpApi \<Rightarrow> PortablePath \<Rightarrow> Wrapper \<Rightarrow> fs \<Rightarrow> (error + Wrapper) \<times> fs"

type_synonym GenerateDefaultWrapper = "PnpApi \<Rightarrow> PortablePath \<Rightarrow> fs \<Rightarrow> (error + unit) \<times> fs"

datatype IntegrationSdk =
    DefaultSdk "GenerateDefaultWrapper option"
  | PackageSdk string "GenerateIntegrationWrapper option"

type_synonym IntegrationSdks = "IntegrationSdk list"

record Sdks =
  BASE_SDKS :: "(string \<times> GenerateBaseWrapper) list"
  COC_VIM_SDKS :: IntegrationSdks
  VSCODE_SDKS :: IntegrationSdks

definition SUPPORTED_INTEGRATIONS :: "Sdks \<Rightarrow> (string \<times> IntegrationSdks) list" where
  "SUPPORTED_INTEGRATIONS sdks = [(''vim'', COC_VIM_SDKS sdks), (''vscode'', VSCODE_SDKS sdks)]"

text \<open>\<^verbatim>\<open>sdks.find(sdk => sdk[0] === null)\<close> and \<^verbatim>\<open>sdks.find(sdk => sdk[0] === pkgName)\<close>,
  with the generator of the entry found.\<close>

fun findDefaultSdk :: "IntegrationSdks \<Rightarrow> GenerateDefaultWrapper option option" where
  "findDefaultSdk [] = None"
| "findDefaultSdk (DefaultSdk g # sdks) = Some g"
| "findDefaultSdk (PackageSdk k g # sdks) = findDefaultSdk sdks"

fun findPackageSdk :: "string \<Rightarrow> IntegrationSdks \<Rightarrow> GenerateIntegrationWrapper option option" where
  "findPackageSdk pkgName [] = None"
| "findPackageSdk pkgName (DefaultSdk g # sdks) = findPackageSdk pkgName sdks"
| "findPackageSdk pkgName (PackageSdk k g # sdks) =
     (if k = pkgName then Some g else findPackageSdk pkgName sdks)"

text \<open>
  Modelled from the spec: the Reporting Sink (\<^verbatim>\<open>Report\<close> of \<^verbatim>\<open>@yarnpkg/core\<close>) accepts
  warning and info messages and timed sections; it is the list of what it was sent. The calls
  of the generators are recorded in the same list, each before the generator runs.
\<close>

datatype MessageName = UNNAMED

datatype event =
    ReportWarning MessageName string
  | ReportInfo MessageName string
  | StartTimer string
  | EndTimer string
  | CallDefaultWrapper
  | CallBaseWrapper string
  | CallIntegrationWrapper string

record world =
  files :: fs
  trace :: "event list"

definition emit :: "event \<Rightarrow> world \<Rightarrow> world" where
  "emit e w = w\<lparr>trace := trace w @ [e]\<rparr>"

definition reportWarning :: "MessageName \<Rightarrow> string \<Rightarrow> world \<Rightarrow> world" where
  "reportWarning n message w = emit (ReportWarning n message) w"

definition reportInfo :: "MessageName \<Rightarrow> string \<Rightarrow> world \<Rightarrow> world" where
  "reportInfo n message w = emit (ReportInfo n message) w"

definition startTimerPromise :: "string \<Rightarrow> (world \<Rightarrow> (error + unit) \<times> world) \<Rightarrow> world
    \<Rightarrow> (error + unit) \<times> world" where
  "startTimerPromise label cb w =
     (case cb (emit (StartTimer label) w) of (r, w1) \<Rightarrow> (r, emit (EndTimer label) w1))"

text \<open>\<^verbatim>\<open>configuration.format(text, FormatType.PATH)\<close>; no other format type is used.\<close>

datatype FormatType = PATH

record Configuration =
  format :: "string \<Rightarrow> FormatType \<Rightarrow> string"

text \<open>\<^verbatim>\<open>String.prototype.split\<close> at a character, and a number in a template literal.\<close>

fun split :: "char \<Rightarrow> string \<Rightarrow> string list" where
  "split c [] = [[]]"
| "split c (x # xs) =
     (if x = c then [] # split c xs
      else case split c xs of [] \<Rightarrow> [[x]] | y # ys \<Rightarrow> (x # y) # ys)"

fun showNat :: "nat \<Rightarrow> string" where
  "showNat n =
     (if n < 10 then [''0123456789'' ! n]
      else showNat (n div 10) @ [''0123456789'' ! (n mod 10)])"

definition getDisplayName :: "Libs \<Rightarrow> string \<Rightarrow> string" where
  "getDisplayName lib n = joinStrings '' '' (map (capitalize lib) (split CHR '' '' (startCase lib n)))"

text \<open>The symbols of the messages, in UTF-8: check mark, bullet, upwards button, sparkles.\<close>

definition CHECK_MARK :: string where
  "CHECK_MARK = [CHR 0xE2, CHR 0x9C, CHR 0x93]"

definition BULLET :: string where
  "BULLET = [CHR 0xE2, CHR 0x80, CHR 0xA2]"

definition UPWARDS_BUTTON :: string where
  "UPWARDS_BUTTON = [CHR 0xF0, CHR 0x9F, CHR 0x94, CHR 0xBC]"

definition SPARKLES :: string where
  "SPARKLES = [CHR 0xE2, CHR 0x9C, CHR 0xA8]"

record AllIntegrations =
  requestedIntegrations :: "string list"
  preexistingIntegrations :: "string list"

text \<open>The options of a run; the report of the source is the trace of the world.\<close>

record Options =
  onlyBase :: bool
  verbose :: bool
  configuration :: Configuration

text \<open>The migration of the legacy folder (the block marked \<^verbatim>\<open>TODO: remove in next major\<close>).\<close>

definition OLD_FOLDER_WARNING :: "Configuration \<Rightarrow> string" where
  "OLD_FOLDER_WARNING cfg =
     ''Cleaning up the existing SDK files in the old '' @ format cfg (pathString OLD_SDK_FOLDER) PATH
     @ '' folder. You might need to manually update existing references outside the ''
     @ format cfg ''.vscode'' PATH @ '' folder (e.g. .gitignore)...''"

definition cleanupOldFolder :: "Configuration \<Rightarrow> PortablePath \<Rightarrow> world \<Rightarrow> world" where
  "cleanupOldFolder cfg projectRoot w =
     (let oldTargetFolder = join projectRoot OLD_SDK_FOLDER
      in if existsSync (files w) oldTargetFolder \<and> \<not> isSymbolicLink (files w) oldTargetFolder
         then
           let w1 = reportWarning UNNAMED (OLD_FOLDER_WARNING cfg) w
           in w1\<lparr>files := removePromise oldTargetFolder (files w1)\<rparr>
         else w)"

definition cleanupTargetFolder :: "PortablePath \<Rightarrow> world \<Rightarrow> world" where
  "cleanupTargetFolder targetFolder w =
     (if existsSync (files w) targetFolder
      then
        let w1 = reportWarning UNNAMED ''Cleaning up the existing SDK files...'' w
        in w1\<lparr>files := removePromise targetFolder (files w1)\<rparr>
      else w)"

text \<open>The first loop: the default generator of every integration table that has one.\<close>

fun defaultWrappers :: "PnpApi \<Rightarrow> PortablePath \<Rightarrow> IntegrationSdks list \<Rightarrow> world
    \<Rightarrow> (error + unit) \<times> world" where
  "defaultWrappers api targetFolder [] w = (Inr (), w)"
| "defaultWrappers api targetFolder (sdks # rest) w =
     (case findDefaultSdk sdks of
        None \<Rightarrow> defaultWrappers api targetFolder rest w
      | Some None \<Rightarrow> defaultWrappers api targetFolder rest w
      | Some (Some generateDefaultWrapper) \<Rightarrow>
          (case generateDefaultWrapper api targetFolder (files (emit CallDefaultWrapper w)) of
             (Inl e, t) \<Rightarrow> (Inl e, (emit CallDefaultWrapper w)\<lparr>files := t\<rparr>)
           | (Inr u, t) \<Rightarrow>
               defaultWrappers api targetFolder rest ((emit CallDefaultWrapper w)\<lparr>files := t\<rparr>)))"

text \<open>The inner loop: the integration generators of one package, on its wrapper.\<close>

fun integrationWrappers :: "PnpApi \<Rightarrow> PortablePath \<Rightarrow> string \<Rightarrow> IntegrationSdks list \<Rightarrow> Wrapper
    \<Rightarrow> world \<Rightarrow> (error + unit) \<times> world" where
  "integrationWrappers api targetFolder pkgName [] wrapper w = (Inr (), w)"
| "integrationWrappers api targetFolder pkgName (sdks # rest) wrapper w =
     (case findPackageSdk pkgName sdks of
        None \<Rightarrow> integrationWrappers api targetFolder pkgName rest wrapper w
      | Some None \<Rightarrow> integrationWrappers api targetFolder pkgName rest wrapper w
      | Some (Some generateIntegrationWrapper) \<Rightarrow>
          (case generateIntegrationWrapper api targetFolder wrapper
                  (files (emit (CallIntegrationWrapper pkgName) w)) of
             (Inl e, t) \<Rightarrow> (Inl e, (emit (CallIntegrationWrapper pkgName) w)\<lparr>files := t\<rparr>)
           | (Inr wrapper1, t) \<Rightarrow>
               integrationWrappers api targetFolder pkgName rest wrapper1
                 ((emit (CallIntegrationWrapper pkgName) w)\<lparr>files := t\<rparr>)))"

text \<open>The loop over \<^verbatim>\<open>BASE_SDKS\<close>; it returns the display names it skipped, in order.\<close>

fun baseWrappers :: "Libs \<Rightarrow> PnpApi \<Rightarrow> PortablePath \<Rightarrow> IntegrationSdks list
    \<Rightarrow> (string \<times> GenerateBaseWrapper) list \<Rightarrow> string list \<Rightarrow> world
    \<Rightarrow> (error + string list) \<times> world" where
  "baseWrappers lib api targetFolder integrationSdks [] skipped w = (Inr skipped, w)"
| "baseWrappers lib api targetFolder integrationSdks ((pkgName, generateBaseWrapper) # rest) skipped w =
     (let displayName = getDisplayName lib pkgName
      in if map_of (packageDependencies (topLevelInformation api)) pkgName \<noteq> None
         then
           let w1 = reportInfo UNNAMED (green lib CHECK_MARK @ '' '' @ displayName) w;
               w2 = emit (CallBaseWrapper pkgName) w1
           in case generateBaseWrapper api targetFolder (files w2) of
                (Inl e, t) \<Rightarrow> (Inl e, w2\<lparr>files := t\<rparr>)
              | (Inr wrapper, t) \<Rightarrow>
                  (case integrationWrappers api targetFolder pkgName integrationSdks wrapper
                          (w2\<lparr>files := t\<rparr>) of
                     (Inl e, w3) \<Rightarrow> (Inl e, w3)
                   | (Inr u, w3) \<Rightarrow>
                       baseWrappers lib api targetFolder integrationSdks rest skipped w3)
         else baseWrappers lib api targetFolder integrationSdks rest (skipped @ [displayName]) w)"

definition SKIPPED_ITEM :: "Libs \<Rightarrow> string \<Rightarrow> string" where
  "SKIPPED_ITEM lib displayName =
     yellow lib BULLET @ '' '' @ displayName @ '' (dependency not found; skipped)''"

definition SKIPPED_COUNT :: "Libs \<Rightarrow> nat \<Rightarrow> string" where
  "SKIPPED_COUNT lib n =
     yellow lib BULLET @ '' '' @ showNat n @ '' SDKs were skipped based on your root dependencies''"

definition reportSkipped :: "Libs \<Rightarrow> bool \<Rightarrow> string list \<Rightarrow> world \<Rightarrow> world" where
  "reportSkipped lib verb skipped w =
     (if length skipped > 0
      then if verb
           then foldl (\<lambda>w1 displayName. reportWarning UNNAMED (SKIPPED_ITEM lib displayName) w1) w skipped
           else reportWarning UNNAMED (SKIPPED_COUNT lib (length skipped)) w
      else w)"

text \<open>The body of the first timed section.\<close>

definition generateSdks :: "Libs \<Rightarrow> Sdks \<Rightarrow> PnpApi \<Rightarrow> PortablePath \<Rightarrow> IntegrationSdks list \<Rightarrow> bool
    \<Rightarrow> world \<Rightarrow> (error + unit) \<times> world" where
  "generateSdks lib sdks api targetFolder integrationSdks verb w =
     (case defaultWrappers api targetFolder integrationSdks w of
        (Inl e, w1) \<Rightarrow> (Inl e, w1)
      | (Inr u, w1) \<Rightarrow>
          (case baseWrappers lib api targetFolder integrationSdks (BASE_SDKS sdks) [] w1 of
             (Inl e, w2) \<Rightarrow> (Inl e, w2)
           | (Inr skipped, w2) \<Rightarrow> (Inr (), reportSkipped lib verb skipped w2)))"

text \<open>The body of the second timed section.\<close>

definition generateSettings :: "Libs \<Rightarrow> string list \<Rightarrow> string list \<Rightarrow> world \<Rightarrow> (error + unit) \<times> world" where
  "generateSettings lib allIntegrations preexisting w =
     (Inr (),
      foldl (\<lambda>w1 integration.
               if integration \<in> set preexisting
               then reportInfo UNNAMED
                      (green lib CHECK_MARK @ '' '' @ getDisplayName lib integration
                       @ '' (updated '' @ UPWARDS_BUTTON @ '')'') w1
               else reportInfo UNNAMED
                      (green lib CHECK_MARK @ '' '' @ getDisplayName lib integration
                       @ '' (new '' @ SPARKLES @ '')'') w1)
        w allIntegrations)"

definition generateSdk :: "Libs \<Rightarrow> Sdks \<Rightarrow> PnpApi \<Rightarrow> AllIntegrations \<Rightarrow> Options \<Rightarrow> world
    \<Rightarrow> (error + unit) \<times> world" where
  "generateSdk lib sdks api all options w =
     (let projectRoot = toPortablePath lib (packageLocation (topLevelInformation api));
          targetFolder = join projectRoot SDK_FOLDER;
          allIntegrations = newSet (requestedIntegrations all @ preexistingIntegrations all);
          w1 = cleanupOldFolder (configuration options) projectRoot w;
          w2 = cleanupTargetFolder targetFolder w1;
          integrationsFile = newIntegrationsFile\<lparr>integrations := map JStr allIntegrations\<rparr>
      in case persist lib targetFolder integrationsFile (files w2) of
           (Inl e, t) \<Rightarrow> (Inl e, w2\<lparr>files := t\<rparr>)
         | (Inr u, t) \<Rightarrow>
            (let w3 = w2\<lparr>files := t\<rparr>;
                 integrationSdks =
                   map snd (filter (\<lambda>(integration, sdk). integration \<in> set allIntegrations)
                              (SUPPORTED_INTEGRATIONS sdks))
             in case startTimerPromise
                       (''Generating SDKs inside ''
                        @ format (configuration options) (pathString SDK_FOLDER) PATH)
                       (generateSdks lib sdks api targetFolder integrationSdks (verbose options)) w3 of
                  (Inl e, w4) \<Rightarrow> (Inl e, w4)
                | (Inr u, w4) \<Rightarrow>
                    if length allIntegrations > 0
                    then startTimerPromise ''Generating settings''
                           (generateSettings lib allIntegrations (preexistingIntegrations all)) w4
                    else (Inr (), w4)))"






section \<open>An example project\<close>

text \<open>
  A host for the examples: POSIX paths, no colours, display names left as they are, and a
  serialiser that knows the document of the example and the empty one.
\<close>

definition exampleDocument :: jsval where
  "exampleDocument = JObj [(''integrations'', JArr [JStr ''vscode'', JStr ''vim''])]"

definition exampleText :: string where
  "exampleText = ''integrations:\<newline>  - vscode\<newline>  - vim\<newline>''"

definition exampleLibs :: Libs where
  "exampleLibs =
     \<lparr>parseSyml = (\<lambda>s. if s = BANNER @ exampleText then Inr exampleDocument
                       else if s = BANNER then Inr (JObj [])
                       else Inl (Error ''Unexpected text'')),
      stringifySyml = (\<lambda>d. if d = exampleDocument then exampleText else []),
      fromPortablePath = pathString,
      toPortablePath = split CHR ''/'',
      startCase = (\<lambda>s. s),
      capitalize = (\<lambda>s. s),
      green = (\<lambda>s. s),
      yellow = (\<lambda>s. s)\<rparr>"

text \<open>
  The project \<^verbatim>\<open>/proj\<close> depends on \<^verbatim>\<open>typescript\<close> and not on \<^verbatim>\<open>eslint\<close>; both are
  base SDKs, and the integration of \<^verbatim>\<open>vscode\<close> has a generator for \<^verbatim>\<open>typescript\<close>. The
  base generator of a package writes one binary through a new wrapper. The tree of the project
  holds the legacy folder with one file.
\<close>

definition exampleApi :: PnpApi where
  "exampleApi =
     \<lparr>topLevelInformation =
        \<lparr>packageLocation = ''/proj'', packageDependencies = [(''typescript'', ''npm:4.0.2'')]\<rparr>,
      resolvePnpapi = ''/proj/.pnp.js''\<rparr>"

definition exampleBase :: "string \<Rightarrow> GenerateBaseWrapper" where
  "exampleBase n api targetFolder t =
     (case writeBinary exampleLibs [''bin'', n] noOptions (newWrapper [n] api targetFolder) t of
        (Inl e, wrapper, t1) \<Rightarrow> (Inl e, t1)
      | (Inr u, wrapper, t1) \<Rightarrow> (Inr wrapper, t1))"

definition exampleSdks :: Sdks where
  "exampleSdks =
     \<lparr>BASE_SDKS = [(''eslint'', exampleBase ''eslint''), (''typescript'', exampleBase ''typescript'')],
      COC_VIM_SDKS = [],
      VSCODE_SDKS = [DefaultSdk None,
                     PackageSdk ''typescript'' (Some (\<lambda>api targetFolder wrapper t. (Inr wrapper, t)))]\<rparr>"

definition exampleOptions :: Options where
  "exampleOptions = \<lparr>onlyBase = False, verbose = True, configuration = \<lparr>format = (\<lambda>s f. s)\<rparr>\<rparr>"

definition exampleWorld :: world where
  "exampleWorld =
     \<lparr>files = [['''', ''proj''] \<mapsto> Directory,
               ['''', ''proj'', ''.vscode''] \<mapsto> Directory,
               ['''', ''proj'', ''.vscode'', ''pnpify''] \<mapsto> Directory,
               ['''', ''proj'', ''.vscode'', ''pnpify'', ''tsserver.js''] \<mapsto> File ''old'' False],
      trace = []\<rparr>"

section \<open>Properties of sets and joins\<close>

lemma set_foldl_setAdd: "set (foldl setAdd acc xs) = set acc \<union> set xs"
  by (induction xs arbitrary: acc) (auto simp: setAdd_def)

lemma distinct_foldl_setAdd: "distinct acc \<Longrightarrow> distinct (foldl setAdd acc xs)"
  by (induction xs arbitrary: acc) (auto simp: setAdd_def)

lemma set_newSet: "set (newSet xs) = set xs"
  by (simp add: newSet_def set_foldl_setAdd)

lemma distinct_newSet: "distinct (newSet xs)"
  by (simp add: newSet_def distinct_foldl_setAdd)

lemma foldl_setAdd_map: "inj f \<Longrightarrow> foldl setAdd (map f acc) (map f xs) = map f (foldl setAdd acc xs)"
proof (induction xs arbitrary: acc)
  case Nil
  then show ?case by simp
next
  case (Cons a xs)
  have mem: "f a \<in> f ` set acc \<longleftrightarrow> a \<in> set acc"
    using Cons.prems by (simp add: inj_image_mem_iff)
  show ?case
    using Cons.IH[OF Cons.prems, of acc] Cons.IH[OF Cons.prems, of "acc @ [a]"] mem
    by (simp add: setAdd_def)
qed

lemma foldl_setAdd_distinct: "distinct (acc @ xs) \<Longrightarrow> foldl setAdd acc xs = acc @ xs"
  by (induction xs arbitrary: acc) (auto simp: setAdd_def)

lemma newSet_idem: "distinct xs \<Longrightarrow> newSet xs = xs"
  by (simp add: newSet_def foldl_setAdd_distinct)

lemma newSet_map_JStr: "newSet (map JStr xs) = map JStr (newSet xs)"
  using foldl_setAdd_map[of JStr "[]" xs] by (simp add: newSet_def inj_def)

lemma joinVals_map_JStr: "joinVals sep (map JStr xs) = joinStrings sep xs"
  by (induction xs) auto

lemma filter_unsupported_JStr:
  "filter (\<lambda>i. \<not> hasSupportedIntegration i) (map JStr xs) = map JStr (filter (\<lambda>i. i \<notin> set SUPPORTED_INTEGRATION_KEYS) xs)"
  by (induction xs) auto

lemma sublist_joinStrings: "n \<in> set names \<Longrightarrow> sublist n (joinStrings sep names)"
proof (induction names)
  case Nil then show ?case by simp
next
  case (Cons x xs)
  show ?case
  proof (cases "n = x")
    case True
    then show ?thesis by (simp add: sublist_append_rightI)
  next
    case False
    with Cons have "sublist n (joinStrings sep xs)" and ne: "xs \<noteq> []" by auto
    then obtain ps ss where "joinStrings sep xs = ps @ n @ ss"
      by (auto simp: sublist_def)
    then have "joinStrings sep (x # xs) = (x @ sep @ ps) @ n @ ss"
      using ne by simp
    then show ?thesis
      unfolding sublist_def by blast
  qed
qed

section \<open>Properties of IntegrationsFile.load\<close>




lemma load_strings:
  assumes "typeof data = ''object''" and "data \<noteq> JNull"
    and "getProp data ''integrations'' = JArr (map JStr ids)"
  shows "load data this =
     (if \<exists>i \<in> set ids. i \<notin> set SUPPORTED_INTEGRATION_KEYS
      then Inl (UsageError (UNSUPPORTED_HEAD
             @ joinStrings '', '' (filter (\<lambda>i. i \<notin> set SUPPORTED_INTEGRATION_KEYS) (newSet ids))
             @ UNSUPPORTED_GUIDANCE))
      else Inr (),
      this\<lparr>raw := data, integrations := map JStr (newSet ids)\<rparr>)"
proof -
  have "(filter (\<lambda>i. i \<notin> set SUPPORTED_INTEGRATION_KEYS) (newSet ids) = [])
        \<longleftrightarrow> \<not> (\<exists>i \<in> set ids. i \<notin> set SUPPORTED_INTEGRATION_KEYS)"
    by (simp add: filter_empty_conv set_newSet)
  then show ?thesis
    using assms
    by (simp add: load_def Let_def validateIntegrations_def newSet_map_JStr
        filter_unsupported_JStr joinVals_map_JStr del: hasSupportedIntegration.simps)
qed

text \<open>
  Claim C4: when the array under \<^verbatim>\<open>integrations\<close> holds at least one identifier outside the
  supported enumeration, \<^verbatim>\<open>load\<close> fails with a usage error. Its message is the fixed head,
  the names joined by a comma and a space, and the guidance text; the names are exactly the
  unsupported identifiers of the input, each once, so all of them and no supported one; and
  each name can be read in the message.
\<close>

theorem load_unsupported:
  assumes "typeof data = ''object''" and "data \<noteq> JNull"
    and "getProp data ''integrations'' = JArr (map JStr ids)"
    and "\<exists>i \<in> set ids. i \<notin> set SUPPORTED_INTEGRATION_KEYS"
  shows "\<exists>names message.
     fst (load data this) = Inl (UsageError message)
     \<and> message = UNSUPPORTED_HEAD @ joinStrings '', '' names @ UNSUPPORTED_GUIDANCE
     \<and> set names = {i \<in> set ids. i \<notin> set SUPPORTED_INTEGRATION_KEYS}
     \<and> distinct names
     \<and> (\<forall>n \<in> set names. sublist n message)"
proof -
  let ?names = "filter (\<lambda>i. i \<notin> set SUPPORTED_INTEGRATION_KEYS) (newSet ids)"
  let ?message = "UNSUPPORTED_HEAD @ joinStrings '', '' ?names @ UNSUPPORTED_GUIDANCE"
  have 1: "fst (load data this) = Inl (UsageError ?message)"
    using assms by (simp add: load_strings)
  have 2: "set ?names = {i \<in> set ids. i \<notin> set SUPPORTED_INTEGRATION_KEYS}"
    by (auto simp: set_newSet)
  have 3: "distinct ?names"
    by (simp add: distinct_newSet)
  have 4: "\<forall>n \<in> set ?names. sublist n ?message"
  proof
    fix n assume "n \<in> set ?names"
    then have "sublist n (joinStrings '', '' ?names)"
      by (rule sublist_joinStrings)
    then obtain ps ss where "joinStrings '', '' ?names = ps @ n @ ss"
      by (auto simp: sublist_def)
    then have "?message = (UNSUPPORTED_HEAD @ ps) @ n @ (ss @ UNSUPPORTED_GUIDANCE)"
      by simp
    then show "sublist n ?message"
      unfolding sublist_def by blast
  qed
  from 1 2 3 4 show ?thesis by blast
qed

theorem load_unsupported_witness:
  "(\<exists>i \<in> set [''vim'', ''emacs'', ''vim'', ''atom'']. i \<notin> set SUPPORTED_INTEGRATION_KEYS)
   \<and> fst (load (JObj [(''integrations'', JArr (map JStr [''vim'', ''emacs'', ''vim'', ''atom'']))]) newIntegrationsFile)
      = Inl (UsageError ''No supported integrations with the following names could be found: emacs, atom. Run `yarn pnpify --sdk -h` to see the list of supported integrations.'')"
proof -
  let ?data = "JObj [(''integrations'', JArr (map JStr [''vim'', ''emacs'', ''vim'', ''atom'']))]"
  have h1: "typeof ?data = ''object''" by simp
  have h2: "?data \<noteq> JNull" by simp
  have h3: "getProp ?data ''integrations'' = JArr (map JStr [''vim'', ''emacs'', ''vim'', ''atom''])" by simp
  have h4: "\<exists>i \<in> set [''vim'', ''emacs'', ''vim'', ''atom'']. i \<notin> set SUPPORTED_INTEGRATION_KEYS"
    by (simp add: SUPPORTED_INTEGRATION_KEYS_def)
  from load_unsupported [OF h1 h2 h3 h4, of newIntegrationsFile] obtain names message where
    l: "fst (load ?data newIntegrationsFile) = Inl (UsageError message)"
    and m: "message = UNSUPPORTED_HEAD @ joinStrings '', '' names @ UNSUPPORTED_GUIDANCE"
    and n: "set names = {i \<in> set [''vim'', ''emacs'', ''vim'', ''atom'']. i \<notin> set SUPPORTED_INTEGRATION_KEYS}"
    by blast
  have "fst (load ?data newIntegrationsFile)
      = Inl (UsageError ''No supported integrations with the following names could be found: emacs, atom. Run `yarn pnpify --sdk -h` to see the list of supported integrations.'')"
    by (simp add: load_def validateIntegrations_def newSet_def setAdd_def SUPPORTED_INTEGRATION_KEYS_def
        UNSUPPORTED_HEAD_def UNSUPPORTED_GUIDANCE_def)
  with h4 l show ?thesis by blast
qed

section \<open>Properties of IntegrationsFile.persist\<close>

text \<open>
  Claim C2, as stated, says that a key of the loaded data other than \<^verbatim>\<open>integrations\<close> is
  still in the document that \<^verbatim>\<open>persist\<close> writes. The data of the example has the key
  \<^verbatim>\<open>editor\<close>; it loads without error, and the document that \<^verbatim>\<open>persist\<close> serialises
  afterwards has the key \<^verbatim>\<open>integrations\<close> only.
\<close>

theorem persist_drops_unknown_keys_counterexample:
  "load (JObj [(''integrations'', JArr [JStr ''vscode'']), (''editor'', JStr ''emacs'')]) newIntegrationsFile
     = (Inr (), \<lparr>integrations = [JStr ''vscode''],
                 raw = JObj [(''integrations'', JArr [JStr ''vscode'']), (''editor'', JStr ''emacs'')]\<rparr>)
   \<and> persistData \<lparr>integrations = [JStr ''vscode''],
                   raw = JObj [(''integrations'', JArr [JStr ''vscode'']), (''editor'', JStr ''emacs'')]\<rparr>
     = JObj [(''integrations'', JArr [JStr ''vscode''])]
   \<and> getProp (persistData \<lparr>integrations = [JStr ''vscode''],
                   raw = JObj [(''integrations'', JArr [JStr ''vscode'']), (''editor'', JStr ''emacs'')]\<rparr>) ''editor''
     = JUndefined"
  by (simp add: load_def newIntegrationsFile_def persistData_def exportTo_def newSet_def setAdd_def
      validateIntegrations_def SUPPORTED_INTEGRATION_KEYS_def)

text \<open>
  Claim C2, amended: the other top-level keys of the loaded data are kept in \<open>raw\<close> in
  memory only. The document that \<^verbatim>\<open>persist\<close> serialises starts from an empty mapping, so
  it has the key \<^verbatim>\<open>integrations\<close> when the set is not empty and no other key, and \<open>raw\<close>
  has no influence on what \<^verbatim>\<open>persist\<close> does.
\<close>

theorem persist_writes_integrations_only:
  "persistData this = JObj (if integrations this = [] then [] else [(''integrations'', JArr (integrations this))])
   \<and> getProp (persistData this) k = (if k = ''integrations'' \<and> integrations this \<noteq> [] then JArr (integrations this) else JUndefined)
   \<and> persist lib dir (this\<lparr>raw := r\<rparr>) t = persist lib dir this t"
proof -
  have 1: "persistData this = JObj (if integrations this = [] then [] else [(''integrations'', JArr (integrations this))])"
    by (simp add: persistData_def exportTo_def)
  have 2: "getProp (persistData this) k = (if k = ''integrations'' \<and> integrations this \<noteq> [] then JArr (integrations this) else JUndefined)"
    unfolding 1 by simp
  have "persistData (this\<lparr>raw := r\<rparr>) = persistData this"
    by (simp add: persistData_def exportTo_def)
  then have 3: "persist lib dir (this\<lparr>raw := r\<rparr>) t = persist lib dir this t"
    by (simp only: persist_def)
  from 1 2 3 show ?thesis by blast
qed

theorem persist_writes_integrations_only_witness:
  "persistData \<lparr>integrations = [JStr ''vscode''],
                 raw = JObj [(''integrations'', JArr [JStr ''vscode'']), (''editor'', JStr ''emacs'')]\<rparr>
     = JObj [(''integrations'', JArr [JStr ''vscode''])]
   \<and> getProp (persistData \<lparr>integrations = [JStr ''vscode''],
                 raw = JObj [(''integrations'', JArr [JStr ''vscode'']), (''editor'', JStr ''emacs'')]\<rparr>) ''editor''
     = JUndefined"
  using persist_writes_integrations_only
    [of "\<lparr>integrations = [JStr ''vscode''],
          raw = JObj [(''integrations'', JArr [JStr ''vscode'']), (''editor'', JStr ''emacs'')]\<rparr>" "''editor''"]
  by simp

lemma mkdirAll_ok:
  "\<forall>q \<in> set qs. isRoot q \<or> t q = None \<or> t q = Some Directory \<Longrightarrow>
   \<exists>t1. mkdirAll qs t = (Inr (), t1)
      \<and> (\<forall>q \<in> set qs. isDirectory t1 q)
      \<and> (\<forall>p. p \<notin> set qs \<longrightarrow> t1 p = t p)"
proof (induction qs arbitrary: t)
  case Nil
  then show ?case by simp
next
  case (Cons q qs)
  show ?case
  proof (cases "isRoot q \<or> t q = Some Directory")
    case True
    from Cons.prems have "\<forall>q \<in> set qs. isRoot q \<or> t q = None \<or> t q = Some Directory"
      by simp
    from Cons.IH[OF this] obtain t1 where t1: "mkdirAll qs t = (Inr (), t1)"
      "\<forall>q \<in> set qs. isDirectory t1 q" "\<forall>p. p \<notin> set qs \<longrightarrow> t1 p = t p"
      by blast
    have "mkdirAll (q # qs) t = (Inr (), t1)"
      using True t1(1) by auto
    moreover have "isDirectory t1 q"
      using True t1(2,3) by (cases "q \<in> set qs") (auto simp: isDirectory_def)
    ultimately show ?thesis
      using t1 by auto
  next
    case False
    with Cons.prems have none: "t q = None" and nr: "\<not> isRoot q" by auto
    let ?t = "t(q \<mapsto> Directory)"
    from Cons.prems have "\<forall>q' \<in> set qs. isRoot q' \<or> ?t q' = None \<or> ?t q' = Some Directory"
      by simp
    from Cons.IH[OF this] obtain t1 where t1: "mkdirAll qs ?t = (Inr (), t1)"
      "\<forall>q \<in> set qs. isDirectory t1 q" "\<forall>p. p \<notin> set qs \<longrightarrow> t1 p = ?t p"
      by blast
    have "mkdirAll (q # qs) t = (Inr (), t1)"
      using none nr t1(1) by simp
    moreover have "isDirectory t1 q"
      using t1(2,3) by (cases "q \<in> set qs") (auto simp: isDirectory_def)
    ultimately show ?thesis
      using t1 by auto
  qed
qed

lemma persist_ok:
  assumes dir_ok: "\<forall>q \<in> set (prefixes dir). isRoot q \<or> t q = None \<or> t q = Some Directory"
    and file_ok: "t (join dir INTEGRATIONS_FILE) = None \<or> (\<exists>c x. t (join dir INTEGRATIONS_FILE) = Some (File c x))"
  shows "\<exists>t1 x. persist lib dir this t = (Inr (), t1)
      \<and> t1 (join dir INTEGRATIONS_FILE) = Some (File (BANNER @ stringifySyml lib (persistData this)) x)"
proof -
  let ?path = "join dir INTEGRATIONS_FILE"
  have dn: "dirname ?path = dir"
    by (simp add: dirname_def join_def INTEGRATIONS_FILE_def)
  from mkdirAll_ok[OF dir_ok] obtain t1 where t1: "mkdirAll (prefixes dir) t = (Inr (), t1)"
    "\<forall>q \<in> set (prefixes dir). isDirectory t1 q" "\<forall>p. p \<notin> set (prefixes dir) \<longrightarrow> t1 p = t p"
    by blast
  have "?path \<notin> set (prefixes dir)"
    by (simp add: in_set_prefixes join_def INTEGRATIONS_FILE_def)
  with t1(3) have same: "t1 ?path = t ?path" by simp
  have isdir: "isDirectory t1 dir"
    using t1(2) by (simp add: in_set_prefixes)
  show ?thesis
    using file_ok same isdir t1(1) dn
    by (auto simp: persist_def Let_def mkdirPromise_def changeFilePromise_def writeFilePromise_def)
qed

text \<open>
  Claim C1: for every array \<open>S\<close> of supported identifiers, loading \<^verbatim>\<open>{integrations: S}\<close>
  succeeds, persisting the instance to a directory succeeds, and loading the persisted file
  into a fresh instance succeeds and yields the same set (the same elements in the same
  order). The serialiser and the parser are those of \<^verbatim>\<open>@yarnpkg/parsers\<close>; what is assumed
  of them is that the parser reads the banner and the serialised document of this set back
  as that document. The directory can be created and the path of the file is free or holds a
  file.
\<close>

theorem load_persist_reload:
  fixes S :: "string list"
  assumes supported: "set S \<subseteq> set SUPPORTED_INTEGRATION_KEYS"
    and codec: "parseSyml lib (BANNER @ stringifySyml lib (JObj (if S = [] then [] else [(''integrations'', JArr (map JStr (newSet S)))])))
                = Inr (JObj (if S = [] then [] else [(''integrations'', JArr (map JStr (newSet S)))]))"
    and dir_ok: "\<forall>q \<in> set (prefixes dir). isRoot q \<or> t q = None \<or> t q = Some Directory"
    and file_ok: "t (join dir INTEGRATIONS_FILE) = None \<or> (\<exists>c x. t (join dir INTEGRATIONS_FILE) = Some (File c x))"
  shows "\<exists>this1 t1 this2.
      load (JObj [(''integrations'', JArr (map JStr S))]) initial = (Inr (), this1)
    \<and> persist lib dir this1 t = (Inr (), t1)
    \<and> loadFile lib (join dir INTEGRATIONS_FILE) newIntegrationsFile t1 = (Inr (), this2, t1)
    \<and> integrations this2 = integrations this1
    \<and> set (integrations this2) = JStr ` set S"
proof -
  let ?data = "JObj [(''integrations'', JArr (map JStr S))]"
  let ?this1 = "initial\<lparr>raw := ?data, integrations := map JStr (newSet S)\<rparr>"
  define doc where "doc = JObj (if S = [] then [] else [(''integrations'', JArr (map JStr (newSet S)))])"
  define content where "content = BANNER @ stringifySyml lib doc"
  have ne: "newSet S = [] \<longleftrightarrow> S = []"
    using set_newSet[of S] by (metis set_empty)
  have l1: "load ?data initial = (Inr (), ?this1)"
    using supported by (subst load_strings[where ids = S]) auto
  have pd: "persistData ?this1 = doc"
    by (simp add: persistData_def exportTo_def ne doc_def)
  from persist_ok[OF dir_ok file_ok, of lib ?this1] obtain t1 x where
    p: "persist lib dir ?this1 t = (Inr (), t1)"
    and f: "t1 (join dir INTEGRATIONS_FILE) = Some (File content x)"
    by (auto simp: pd content_def)
  have bn: "content \<noteq> []"
    by (simp add: BANNER_def content_def)
  have parse: "parseSyml lib content = Inr doc"
    using codec by (simp only: content_def doc_def)
  have l2: "load doc newIntegrationsFile
      = (Inr (), newIntegrationsFile\<lparr>raw := doc, integrations := map JStr (newSet S)\<rparr>)"
  proof (cases "S = []")
    case True
    then show ?thesis
      by (simp add: load_def newIntegrationsFile_def newSet_def doc_def)
  next
    case False
    have "set (newSet S) \<subseteq> set SUPPORTED_INTEGRATION_KEYS"
      using supported by (simp add: set_newSet)
    then have "load doc newIntegrationsFile
      = (Inr (), newIntegrationsFile\<lparr>raw := doc, integrations := map JStr (newSet (newSet S))\<rparr>)"
      using False by (subst load_strings[where ids = "newSet S"]) (auto simp: doc_def)
    then show ?thesis
      by (simp add: newSet_idem distinct_newSet)
  qed
  have l3: "loadFile lib (join dir INTEGRATIONS_FILE) newIntegrationsFile t1
      = (Inr (), newIntegrationsFile\<lparr>raw := doc, integrations := map JStr (newSet S)\<rparr>, t1)"
    using bn by (simp add: loadFile_def readFilePromise_def f parse l2)
  show ?thesis
    using l1 p l3 by (simp add: set_newSet)
qed

theorem load_persist_reload_witness:
  "set [''vscode'', ''vim'', ''vscode''] \<subseteq> set SUPPORTED_INTEGRATION_KEYS
   \<and> (\<exists>this1 t1 this2.
      load (JObj [(''integrations'', JArr (map JStr [''vscode'', ''vim'', ''vscode'']))]) newIntegrationsFile = (Inr (), this1)
    \<and> persist exampleLibs ['''', ''proj'', ''.yarn'', ''sdks''] this1 Map.empty = (Inr (), t1)
    \<and> loadFile exampleLibs (join ['''', ''proj'', ''.yarn'', ''sdks''] INTEGRATIONS_FILE) newIntegrationsFile t1 = (Inr (), this2, t1)
    \<and> integrations this2 = integrations this1
    \<and> set (integrations this2) = JStr ` set [''vscode'', ''vim'', ''vscode''])"
proof -
  have h1: "set [''vscode'', ''vim'', ''vscode''] \<subseteq> set SUPPORTED_INTEGRATION_KEYS"
    by (simp add: SUPPORTED_INTEGRATION_KEYS_def)
  have h2: "parseSyml exampleLibs (BANNER @ stringifySyml exampleLibs
        (JObj (if [''vscode'', ''vim'', ''vscode''] = [] then []
               else [(''integrations'', JArr (map JStr (newSet [''vscode'', ''vim'', ''vscode''])))])))
      = Inr (JObj (if [''vscode'', ''vim'', ''vscode''] = [] then []
               else [(''integrations'', JArr (map JStr (newSet [''vscode'', ''vim'', ''vscode''])))]))"
    by (simp add: exampleLibs_def exampleDocument_def newSet_def setAdd_def)
  have h3: "\<forall>q \<in> set (prefixes ['''', ''proj'', ''.yarn'', ''sdks'']).
      isRoot q \<or> (Map.empty :: fs) q = None \<or> (Map.empty :: fs) q = Some Directory"
    by simp
  have h4: "(Map.empty :: fs) (join ['''', ''proj'', ''.yarn'', ''sdks''] INTEGRATIONS_FILE) = None
      \<or> (\<exists>c x. (Map.empty :: fs) (join ['''', ''proj'', ''.yarn'', ''sdks''] INTEGRATIONS_FILE) = Some (File c x))"
    by simp
  from load_persist_reload [OF h1 h2 h3 h4, where initial = newIntegrationsFile] h1
  show ?thesis by blast
qed

section \<open>Properties of the template\<close>






section \<open>Properties of Wrapper\<close>






section \<open>Properties of generateSdk\<close>






































text \<open>
  Claim C10: the option \<^verbatim>\<open>onlyBase\<close> is never read. Two runs of \<^verbatim>\<open>generateSdk\<close> that
  differ in its value only have the same outcome, the same filesystem and the same trace.
\<close>

theorem onlyBase_ignored:
  "generateSdk lib sdks api all (options\<lparr>onlyBase := b\<rparr>) w = generateSdk lib sdks api all options w"
proof -
  have "verbose (options\<lparr>onlyBase := b\<rparr>) = verbose options"
    and "configuration (options\<lparr>onlyBase := b\<rparr>) = configuration options"
    by simp_all
  then show ?thesis
    unfolding generateSdk_def by (simp only:)
qed

theorem onlyBase_ignored_witness:
  "generateSdk exampleLibs exampleSdks exampleApi
     \<lparr>requestedIntegrations = [''vscode''], preexistingIntegrations = []\<rparr>
     (exampleOptions\<lparr>onlyBase := True\<rparr>) exampleWorld
   = generateSdk exampleLibs exampleSdks exampleApi
     \<lparr>requestedIntegrations = [''vscode''], preexistingIntegrations = []\<rparr>
     exampleOptions exampleWorld"
  using onlyBase_ignored [where lib = exampleLibs and sdks = exampleSdks and api = exampleApi
     and all = "\<lparr>requestedIntegrations = [''vscode''], preexistingIntegrations = []\<rparr>"
     and options = exampleOptions and b = True and w = exampleWorld]
  by simp

end
